theory Spec2Isabelle
  imports Complex_Main
begin

section \<open>JavaScript values used by the fragment finders\<close>

text \<open>
  The module \<^verbatim>\<open>controller/fragment-finders.js\<close> of hls.js exists in two copies: the file
  of that name, whose functions read the enclosing controller through \<^verbatim>\<open>this\<close>, and a
  second copy (\<^verbatim>\<open>unnamed/part_000\<close>) that takes everything as a parameter. Both are
  embedded here.

  A JavaScript number is either \<^verbatim>\<open>NaN\<close> or a value. Values are taken as exact reals:
  rounding, the infinities and negative zero are left out, so a statement below is about
  the branch structure and the comparisons of the code on exactly computed numbers. Every
  concrete input used below consists of integers and dyadic fractions, on which double
  arithmetic is exact. The tolerance predicate, whose formula is itself the subject of a
  statement, is embedded a second time over all doubles, with the rounded addition and
  subtraction as parameters.
\<close>

datatype number = NaN | Val real

text \<open>Arithmetic: \<^verbatim>\<open>NaN\<close> is absorbing.\<close>

fun js_add :: "number \<Rightarrow> number \<Rightarrow> number" where
  "js_add (Val a) (Val b) = Val (a + b)"
| "js_add _ _ = NaN"

fun js_sub :: "number \<Rightarrow> number \<Rightarrow> number" where
  "js_sub (Val a) (Val b) = Val (a - b)"
| "js_sub _ _ = NaN"

fun js_mul :: "number \<Rightarrow> number \<Rightarrow> number" where
  "js_mul (Val a) (Val b) = Val (a * b)"
| "js_mul _ _ = NaN"

text \<open>The relational operators: every comparison with \<^verbatim>\<open>NaN\<close> is false.\<close>

fun js_lt :: "number \<Rightarrow> number \<Rightarrow> bool" where
  "js_lt (Val a) (Val b) = (a < b)"
| "js_lt _ _ = False"

fun js_le :: "number \<Rightarrow> number \<Rightarrow> bool" where
  "js_le (Val a) (Val b) = (a \<le> b)"
| "js_le _ _ = False"

fun js_gt :: "number \<Rightarrow> number \<Rightarrow> bool" where
  "js_gt (Val a) (Val b) = (a > b)"
| "js_gt _ _ = False"

fun js_ge :: "number \<Rightarrow> number \<Rightarrow> bool" where
  "js_ge (Val a) (Val b) = (a \<ge> b)"
| "js_ge _ _ = False"

text \<open>\<^verbatim>\<open>Math.min\<close> of two arguments.\<close>

fun Math_min :: "number \<Rightarrow> number \<Rightarrow> number" where
  "Math_min (Val a) (Val b) = Val (min a b)"
| "Math_min _ _ = NaN"

text \<open>Truthiness of a number: zero and \<^verbatim>\<open>NaN\<close> are falsy.\<close>

fun truthy :: "number \<Rightarrow> bool" where
  "truthy (Val r) = (r \<noteq> 0)"
| "truthy NaN = False"

text \<open>
  An optional property or argument is a \<open>number option\<close>, \<open>None\<close> standing for
  \<^verbatim>\<open>undefined\<close>. \<^verbatim>\<open>undefined\<close> is falsy and converts to \<^verbatim>\<open>NaN\<close> where a number is
  needed.
\<close>

fun truthy_opt :: "number option \<Rightarrow> bool" where
  "truthy_opt None = False"
| "truthy_opt (Some n) = truthy n"

fun ToNumber :: "number option \<Rightarrow> number" where
  "ToNumber None = NaN"
| "ToNumber (Some n) = n"

text \<open>
  Reading \<^verbatim>\<open>xs[n]\<close>: an array has an element at \<open>n\<close> only when \<open>n\<close> is an integer
  from \<open>0\<close> up to the length; every other index (negative, fractional, too large,
  \<^verbatim>\<open>NaN\<close>) reads \<^verbatim>\<open>undefined\<close>.
\<close>

fun js_index :: "'a list \<Rightarrow> number \<Rightarrow> 'a option" where
  "js_index xs NaN = None"
| "js_index xs (Val r) =
     (if r = of_int \<lfloor>r\<rfloor> \<and> 0 \<le> r \<and> r < of_nat (length xs)
      then Some (xs ! nat \<lfloor>r\<rfloor>) else None)"

text \<open>Reading a property of \<^verbatim>\<open>undefined\<close> throws.\<close>

datatype error = TypeError

section \<open>Data\<close>

record fragment =
  sn :: number
  start :: number
  duration :: number
  pdt :: "number option"
  endPdt :: "number option"
  deltaPTS :: "number option"

record levelDetails =
  programDateTime :: "string option"

text \<open>
  The object that \<^verbatim>\<open>this\<close> refers to in \<^verbatim>\<open>fragment-finders.js\<close>: a controller with the
  last appended fragment and the player, whose configuration holds the tolerance.
\<close>

record hls_config =
  cfg_maxFragLookUpTolerance :: number

record hls_player =
  hls_config :: hls_config

record controller =
  this_fragPrevious :: "fragment option"
  this_hls :: hls_player

section \<open>The tolerance predicate\<close>

text \<open>\<^verbatim>\<open>fragmentWithinToleranceTest\<close> of the second copy, lines 92 to 116.\<close>

definition fragmentWithinToleranceTest :: "fragment \<Rightarrow> number \<Rightarrow> number \<Rightarrow> int" where
  "fragmentWithinToleranceTest candidate bufferEnd maxFragLookUpTolerance =
     (let candidateLookupTolerance =
            Math_min maxFragLookUpTolerance
              (js_add (duration candidate)
                 (if truthy_opt (deltaPTS candidate) then ToNumber (deltaPTS candidate) else Val 0))
      in if js_le (js_sub (js_add (start candidate) (duration candidate)) candidateLookupTolerance)
               bufferEnd
         then 1
         else if js_gt (js_sub (start candidate) candidateLookupTolerance) bufferEnd
                 \<and> truthy (start candidate)
         then - 1
         else 0)"

section \<open>The PDT projector\<close>

text \<open>
  \<^verbatim>\<open>calculateNextPDT\<close> of the second copy. \<^verbatim>\<open>Date.parse\<close> is the language's own parser
  and is a parameter; a non-empty string is truthy, the empty one is not.
\<close>

definition calculateNextPDT ::
  "(string \<Rightarrow> number) \<Rightarrow> number \<Rightarrow> number \<Rightarrow> fragment option \<Rightarrow> levelDetails option
     \<Rightarrow> error + number" where
  "calculateNextPDT Date_parse start' bufferEnd fragPrevious levelDetails =
     (case (case fragPrevious of None \<Rightarrow> None
                 | Some fp \<Rightarrow> if truthy_opt (pdt fp) then Some fp else None) of
        Some fp \<Rightarrow> Inr (js_add (ToNumber (pdt fp)) (js_mul (duration fp) (Val 1000)))
      | None \<Rightarrow>
         (case levelDetails of
            None \<Rightarrow> Inl TypeError
          | Some ld \<Rightarrow>
             (case programDateTime ld of
                None \<Rightarrow> Inr (Val 0)
              | Some s \<Rightarrow>
                 if s = [] then Inr (Val 0)
                 else Inr (js_sub (js_add (js_mul bufferEnd (Val 1000)) (Date_parse s))
                             (js_mul (Val 1000) start')))))"

text \<open>
  \<^verbatim>\<open>calculateNextPdt\<close> of \<^verbatim>\<open>fragment-finders.js\<close>: the test is on the argument, the
  fragment read is \<^verbatim>\<open>this.fragPrevious\<close>. \<open>this\<close> is \<open>None\<close> when the function is called
  as the plain module export it is.
\<close>

definition calculateNextPdt ::
  "(string \<Rightarrow> number) \<Rightarrow> controller option \<Rightarrow> number \<Rightarrow> number \<Rightarrow> fragment option
     \<Rightarrow> levelDetails option \<Rightarrow> error + number" where
  "calculateNextPdt Date_parse this start' bufferEnd fragPrevious levelDetails =
     (case (case fragPrevious of None \<Rightarrow> None
                 | Some fp \<Rightarrow> if truthy_opt (pdt fp) then Some fp else None) of
        Some _ \<Rightarrow>
         (case this of
            None \<Rightarrow> Inl TypeError
          | Some ctl \<Rightarrow>
             (case this_fragPrevious ctl of
                None \<Rightarrow> Inl TypeError
              | Some tfp \<Rightarrow> Inr (js_add (ToNumber (pdt tfp)) (js_mul (duration tfp) (Val 1000)))))
      | None \<Rightarrow>
         (case levelDetails of
            None \<Rightarrow> Inl TypeError
          | Some ld \<Rightarrow>
             (case programDateTime ld of
                None \<Rightarrow> Inr (Val 0)
              | Some s \<Rightarrow>
                 if s = [] then Inr (Val 0)
                 else Inr (js_sub (js_add (js_mul bufferEnd (Val 1000)) (Date_parse s))
                             (js_mul (Val 1000) start')))))"

section \<open>The PDT locator\<close>

text \<open>The loop of \<^verbatim>\<open>findFragmentByPDT\<close>, lines 47 to 53.\<close>

fun scanByPDT :: "fragment list \<Rightarrow> number \<Rightarrow> fragment option" where
  "scanByPDT [] PDTValue = None"
| "scanByPDT (frag # rest) PDTValue =
     (if js_lt PDTValue (ToNumber (endPdt frag)) then Some frag else scanByPDT rest PDTValue)"

text \<open>
  \<^verbatim>\<open>findFragmentByPDT\<close>, the same text in both copies. The array may be absent; an
  empty array is an object and therefore truthy, so it passes the first test and the read
  of \<^verbatim>\<open>firstSegment.pdt\<close> throws.
\<close>

definition findFragmentByPDT ::
  "fragment list option \<Rightarrow> number option \<Rightarrow> error + fragment option" where
  "findFragmentByPDT fragments PDTValue =
     (case fragments of
        None \<Rightarrow> Inr None
      | Some frags \<Rightarrow>
         if \<not> truthy_opt PDTValue then Inr None
         else
           (case frags of
              [] \<Rightarrow> Inl TypeError
            | firstSegment # _ \<Rightarrow>
               if js_lt (ToNumber PDTValue) (ToNumber (pdt firstSegment)) then Inr None
               else
                 let lastSegment = last frags
                 in if js_ge (ToNumber PDTValue) (ToNumber (endPdt lastSegment)) then Inr None
                    else Inr (scanByPDT frags (ToNumber PDTValue))))"

section \<open>The SN locator\<close>

text \<open>
  The sequential candidate, \<^verbatim>\<open>fragPrevious ? fragments[fragPrevious.sn - fragments[0].sn + 1] : null\<close>.
  Reading \<^verbatim>\<open>fragments[0].sn\<close> of an empty array throws.
\<close>

definition fragNext_of :: "fragment option \<Rightarrow> fragment list \<Rightarrow> error + fragment option" where
  "fragNext_of fragPrevious fragments =
     (case fragPrevious of
        None \<Rightarrow> Inr None
      | Some fp \<Rightarrow>
         (case fragments of
            [] \<Rightarrow> Inl TypeError
          | f0 # _ \<Rightarrow> Inr (js_index fragments (js_add (js_sub (sn fp) (sn f0)) (Val 1)))))"

text \<open>
  The tolerance after \<^verbatim>\<open>if (bufferEnd > end - maxFragLookUpTolerance) { maxFragLookUpTolerance = 0; }\<close>.
\<close>

definition near_end_tolerance :: "number \<Rightarrow> number \<Rightarrow> number \<Rightarrow> number" where
  "near_end_tolerance bufferEnd end' maxFragLookUpTolerance =
     (if js_gt bufferEnd (js_sub end' maxFragLookUpTolerance) then Val 0
      else maxFragLookUpTolerance)"

text \<open>
  \<^verbatim>\<open>findFragmentBySN\<close> of the second copy, lines 67 to 83. \<^verbatim>\<open>BinarySearch.search\<close> lives
  in \<^verbatim>\<open>utils/binary-search\<close>, outside these sources, and is the parameter \<open>search\<close>: it
  receives the array and a comparison of one argument. The second copy hands it the
  three-parameter \<^verbatim>\<open>fragmentWithinToleranceTest\<close> itself, so the search calls it with
  \<^verbatim>\<open>bufferEnd\<close> and \<^verbatim>\<open>maxFragLookUpTolerance\<close> undefined; \<^verbatim>\<open>Math.min\<close> and the
  relational operators convert \<^verbatim>\<open>undefined\<close> to \<^verbatim>\<open>NaN\<close>.
\<close>

definition findFragmentBySN ::
  "(fragment list \<Rightarrow> (fragment \<Rightarrow> int) \<Rightarrow> fragment option) \<Rightarrow> fragment option \<Rightarrow> fragment list
     \<Rightarrow> number \<Rightarrow> number \<Rightarrow> number \<Rightarrow> error + fragment option" where
  "findFragmentBySN search fragPrevious fragments bufferEnd end' maxFragLookUpTolerance =
     (case fragNext_of fragPrevious fragments of
        Inl e \<Rightarrow> Inl e
      | Inr fragNext \<Rightarrow>
         if js_lt bufferEnd end' then
           let tolerance = near_end_tolerance bufferEnd end' maxFragLookUpTolerance
           in (case fragNext of
                 None \<Rightarrow>
                  Inr (search fragments (\<lambda>candidate. fragmentWithinToleranceTest candidate NaN NaN))
               | Some next \<Rightarrow>
                  if fragmentWithinToleranceTest next bufferEnd tolerance = 0 then Inr (Some next)
                  else Inr (search fragments
                              (\<lambda>candidate. fragmentWithinToleranceTest candidate NaN NaN)))
         else Inr None)"

text \<open>
  \<^verbatim>\<open>findFragmentBySN\<close> of \<^verbatim>\<open>fragment-finders.js\<close>, lines 66 to 110. The tolerance comes
  from \<^verbatim>\<open>this.hls.config\<close>, read first; the comparison is a closure over \<^verbatim>\<open>bufferEnd\<close>
  and over the variable \<^verbatim>\<open>maxFragLookUpTolerance\<close>, which it sees after the zeroing. Its
  body is that of \<open>fragmentWithinToleranceTest\<close>.
\<close>

definition findFragmentBySN_this ::
  "(fragment list \<Rightarrow> (fragment \<Rightarrow> int) \<Rightarrow> fragment option) \<Rightarrow> controller option
     \<Rightarrow> fragment option \<Rightarrow> fragment list \<Rightarrow> number \<Rightarrow> number \<Rightarrow> error + fragment option" where
  "findFragmentBySN_this search this fragPrevious fragments bufferEnd end' =
     (case this of
        None \<Rightarrow> Inl TypeError
      | Some ctl \<Rightarrow>
         let config = hls_config (this_hls ctl);
             maxFragLookUpTolerance = cfg_maxFragLookUpTolerance config
         in (case fragNext_of fragPrevious fragments of
               Inl e \<Rightarrow> Inl e
             | Inr fragNext \<Rightarrow>
                if js_lt bufferEnd end' then
                  let tolerance = near_end_tolerance bufferEnd end' maxFragLookUpTolerance;
                      closure = (\<lambda>candidate. fragmentWithinToleranceTest candidate bufferEnd tolerance)
                  in (case fragNext of
                        None \<Rightarrow> Inr (search fragments closure)
                      | Some next \<Rightarrow>
                         if closure next = 0 then Inr (Some next)
                         else Inr (search fragments closure))
                else Inr None))"

section \<open>The ordered search\<close>

text \<open>
  Modelled from the spec: the ordered-search collaborator \<^verbatim>\<open>BinarySearch.search\<close> of
  \<^verbatim>\<open>utils/binary-search\<close>, which is not among the sources. The spec describes it as a
  search over an ordered sequence, given a three-way comparison, that returns the matched
  element or none: a positive answer (After) sends it to later elements, a negative one
  (Before) to earlier ones, zero (Match) ends it. It is used only where a statement needs
  a concrete search; the theorems about the locator hold for every \<open>search\<close>.
\<close>

function BinarySearch_loop :: "'a list \<Rightarrow> ('a \<Rightarrow> int) \<Rightarrow> int \<Rightarrow> int \<Rightarrow> 'a option" where
  "BinarySearch_loop list comparisonFunction minIndex maxIndex =
     (if 0 \<le> minIndex \<and> minIndex \<le> maxIndex \<and> maxIndex < int (length list) then
        let currentIndex = (minIndex + maxIndex) div 2;
            currentElement = list ! nat currentIndex;
            comparisonResult = comparisonFunction currentElement
        in if comparisonResult > 0
           then BinarySearch_loop list comparisonFunction (currentIndex + 1) maxIndex
           else if comparisonResult < 0
           then BinarySearch_loop list comparisonFunction minIndex (currentIndex - 1)
           else Some currentElement
      else None)"
  by pat_completeness auto
termination
  by (relation "measure (\<lambda>(list, comparisonFunction, minIndex, maxIndex).
        nat (maxIndex - minIndex + 1))") auto

definition BinarySearch_search :: "'a list \<Rightarrow> ('a \<Rightarrow> int) \<Rightarrow> 'a option" where
  "BinarySearch_search list comparisonFunction =
     BinarySearch_loop list comparisonFunction 0 (int (length list) - 1)"

section \<open>The tolerance predicate over all doubles\<close>

text \<open>
  A double is \<^verbatim>\<open>NaN\<close> or a number of the extended real line: a finite value or one of
  the two infinities. The two zeros are one value here; the predicate only compares
  numbers and tests them for truthiness, and neither distinguishes the zeros.
\<close>

datatype extended = MinusInfinity | Finite real | PlusInfinity

instantiation extended :: linorder
begin

fun less_eq_extended :: "extended \<Rightarrow> extended \<Rightarrow> bool" where
  "less_eq_extended MinusInfinity _ = True"
| "less_eq_extended (Finite a) (Finite b) = (a \<le> b)"
| "less_eq_extended (Finite _) PlusInfinity = True"
| "less_eq_extended (Finite _) MinusInfinity = False"
| "less_eq_extended PlusInfinity PlusInfinity = True"
| "less_eq_extended PlusInfinity _ = False"

definition less_extended :: "extended \<Rightarrow> extended \<Rightarrow> bool" where
  "less_extended a b = (a \<le> b \<and> \<not> b \<le> a)"

instance
proof
  fix x y z :: extended
  show "(x < y) = (x \<le> y \<and> \<not> y \<le> x)" by (rule less_extended_def)
  show "x \<le> x" by (cases x) simp_all
  show "x \<le> y \<Longrightarrow> y \<le> z \<Longrightarrow> x \<le> z" by (cases x; cases y; cases z) simp_all
  show "x \<le> y \<Longrightarrow> y \<le> x \<Longrightarrow> x = y" by (cases x; cases y) simp_all
  show "x \<le> y \<or> y \<le> x" by (cases x; cases y) auto
qed

end

datatype double = Not_a_Number | Number extended

text \<open>
  The language's relational comparison \<open>x < y\<close>, which is undefined (\<open>None\<close>) when an
  operand is \<^verbatim>\<open>NaN\<close>: equal values and a left operand of plus infinity give false, a right
  operand of plus infinity gives true, a right operand of minus infinity gives false, a left
  operand of minus infinity gives true, and finite values compare as reals.
\<close>

fun ieee_less :: "double \<Rightarrow> double \<Rightarrow> bool option" where
  "ieee_less Not_a_Number _ = None"
| "ieee_less _ Not_a_Number = None"
| "ieee_less (Number (Finite a)) (Number (Finite b)) = Some (a < b)"
| "ieee_less (Number PlusInfinity) (Number _) = Some False"
| "ieee_less (Number _) (Number PlusInfinity) = Some True"
| "ieee_less (Number _) (Number MinusInfinity) = Some False"
| "ieee_less (Number MinusInfinity) (Number _) = Some True"

text \<open>
  \<open>a <= b\<close> is true when \<open>b < a\<close> is false, \<open>a > b\<close> when \<open>b < a\<close> is true, and both are
  false when the comparison is undefined. \<^verbatim>\<open>Math.min\<close> is \<^verbatim>\<open>NaN\<close> when an argument is, and
  otherwise the argument that the comparison finds smaller.
\<close>

definition ieee_le :: "double \<Rightarrow> double \<Rightarrow> bool" where
  "ieee_le a b = (ieee_less b a = Some False)"

definition ieee_gt :: "double \<Rightarrow> double \<Rightarrow> bool" where
  "ieee_gt a b = (ieee_less b a = Some True)"

definition ieee_min :: "double \<Rightarrow> double \<Rightarrow> double" where
  "ieee_min a b =
     (case ieee_less b a of None \<Rightarrow> Not_a_Number | Some True \<Rightarrow> b | Some False \<Rightarrow> a)"

fun ieee_truthy :: "double \<Rightarrow> bool" where
  "ieee_truthy Not_a_Number = False"
| "ieee_truthy (Number (Finite r)) = (r \<noteq> 0)"
| "ieee_truthy (Number _) = True"

fun ieee_truthy_opt :: "double option \<Rightarrow> bool" where
  "ieee_truthy_opt None = False"
| "ieee_truthy_opt (Some n) = ieee_truthy n"

fun ieee_ToNumber :: "double option \<Rightarrow> double" where
  "ieee_ToNumber None = Not_a_Number"
| "ieee_ToNumber (Some n) = n"

text \<open>
  An arithmetic operation of the language: \<^verbatim>\<open>NaN\<close> when an operand is \<^verbatim>\<open>NaN\<close>, and on
  two numbers whatever the operation \<open>f\<close> gives, which may be a rounded value, an infinity
  on overflow, or \<^verbatim>\<open>NaN\<close> for a difference of equal infinities. The addition and the
  subtraction of doubles are parameters of this form.
\<close>

fun ieee_op :: "(extended \<Rightarrow> extended \<Rightarrow> double) \<Rightarrow> double \<Rightarrow> double \<Rightarrow> double" where
  "ieee_op f (Number a) (Number b) = f a b"
| "ieee_op f _ _ = Not_a_Number"

text \<open>The three properties of a candidate that the predicate reads.\<close>

record ieee_fragment =
  ieee_start :: double
  ieee_duration :: double
  ieee_deltaPTS :: "double option"

text \<open>
  \<^verbatim>\<open>fragmentWithinToleranceTest\<close> once more, lines 107 to 115 of the second copy (the
  closure of \<^verbatim>\<open>fragment-finders.js\<close> has the same body), over doubles and for any
  addition \<open>add\<close> and subtraction \<open>sub\<close>.
\<close>

definition fragmentWithinToleranceTest_ieee ::
  "(extended \<Rightarrow> extended \<Rightarrow> double) \<Rightarrow> (extended \<Rightarrow> extended \<Rightarrow> double) \<Rightarrow> ieee_fragment
     \<Rightarrow> double \<Rightarrow> double \<Rightarrow> int" where
  "fragmentWithinToleranceTest_ieee add sub candidate bufferEnd maxFragLookUpTolerance =
     (let candidateLookupTolerance =
            ieee_min maxFragLookUpTolerance
              (ieee_op add (ieee_duration candidate)
                 (if ieee_truthy_opt (ieee_deltaPTS candidate)
                  then ieee_ToNumber (ieee_deltaPTS candidate) else Number (Finite 0)))
      in if ieee_le (ieee_op sub (ieee_op add (ieee_start candidate) (ieee_duration candidate))
                       candidateLookupTolerance) bufferEnd
         then 1
         else if ieee_gt (ieee_op sub (ieee_start candidate) candidateLookupTolerance) bufferEnd
                 \<and> ieee_truthy (ieee_start candidate)
         then - 1
         else 0)"

text \<open>The numbers and fragments of the exact embedding, as doubles.\<close>

fun to_double :: "number \<Rightarrow> double" where
  "to_double NaN = Not_a_Number"
| "to_double (Val r) = Number (Finite r)"

definition to_ieee_fragment :: "fragment \<Rightarrow> ieee_fragment" where
  "to_ieee_fragment f =
     \<lparr>ieee_start = to_double (start f), ieee_duration = to_double (duration f),
      ieee_deltaPTS = map_option to_double (deltaPTS f)\<rparr>"

section \<open>The classification as the specification words it\<close>

datatype classification = Before | Match | After

fun code_of :: "classification \<Rightarrow> int" where
  "code_of After = 1"
| "code_of Before = - 1"
| "code_of Match = 0"

text \<open>
  The minimum and the two comparisons of the specification are those of the extended real
  line in its order; with \<^verbatim>\<open>NaN\<close> there is no minimum and no comparison holds.
\<close>

definition minimum :: "double \<Rightarrow> double \<Rightarrow> double" where
  "minimum a b =
     (case (a, b) of (Number x, Number y) \<Rightarrow> Number (min x y) | _ \<Rightarrow> Not_a_Number)"

definition at_most :: "double \<Rightarrow> double \<Rightarrow> bool" where
  "at_most a b = (case (a, b) of (Number x, Number y) \<Rightarrow> x \<le> y | _ \<Rightarrow> False)"

definition greater_than :: "double \<Rightarrow> double \<Rightarrow> bool" where
  "greater_than a b = (case (a, b) of (Number x, Number y) \<Rightarrow> y < x | _ \<Rightarrow> False)"

text \<open>\<^verbatim>\<open>candidate.deltaPTS or 0\<close>: the drift when it is a number, else zero.\<close>

definition deltaPTS_or_0 :: "ieee_fragment \<Rightarrow> double" where
  "deltaPTS_or_0 candidate =
     (case ieee_deltaPTS candidate of Some (Number x) \<Rightarrow> Number x | _ \<Rightarrow> Number (Finite 0))"

text \<open>
  The three numbered steps of the specification's tolerance predicate, with
  \<^verbatim>\<open>candidate.start != 0\<close> as an inequality of doubles, for the addition and subtraction
  of the doubles.
\<close>

definition classify ::
  "(extended \<Rightarrow> extended \<Rightarrow> double) \<Rightarrow> (extended \<Rightarrow> extended \<Rightarrow> double) \<Rightarrow> ieee_fragment
     \<Rightarrow> double \<Rightarrow> double \<Rightarrow> classification" where
  "classify add sub candidate bufferEnd maxLookupTolerance =
     (let tol = minimum maxLookupTolerance
                  (ieee_op add (ieee_duration candidate) (deltaPTS_or_0 candidate))
      in if at_most (ieee_op sub (ieee_op add (ieee_start candidate) (ieee_duration candidate)) tol)
              bufferEnd
         then After
         else if greater_than (ieee_op sub (ieee_start candidate) tol) bufferEnd
                 \<and> ieee_start candidate \<noteq> Number (Finite 0)
         then Before
         else Match)"

section \<open>Calls and the objects they reach\<close>







section \<open>Orderings of a fragment sequence\<close>

text \<open>
  The program date times of a sequence are monotone: every fragment ends no earlier than
  it starts, and the ends increase strictly along the sequence.
\<close>

definition pdt_monotone :: "fragment list \<Rightarrow> bool" where
  "pdt_monotone fragments =
     (list_all (\<lambda>f. js_le (ToNumber (pdt f)) (ToNumber (endPdt f))) fragments
      \<and> sorted_wrt (\<lambda>a b. js_lt (ToNumber (endPdt a)) (ToNumber (endPdt b))) fragments)"

text \<open>
  Sequence numbers are integers that increase strictly along the sequence (the invariant
  the specification states for a fragment sequence).
\<close>

fun is_integer :: "number \<Rightarrow> bool" where
  "is_integer NaN = False"
| "is_integer (Val r) = (r = of_int \<lfloor>r\<rfloor>)"

definition sn_increasing :: "fragment list \<Rightarrow> bool" where
  "sn_increasing fragments =
     (list_all (\<lambda>f. is_integer (sn f)) fragments
      \<and> sorted_wrt (\<lambda>a b. js_lt (sn a) (sn b)) fragments)"

text \<open>
  The tolerance that the predicate applies to one candidate, its local variable
  \<^verbatim>\<open>candidateLookupTolerance\<close>.
\<close>

definition lookupTolerance :: "fragment \<Rightarrow> number \<Rightarrow> number" where
  "lookupTolerance candidate maxFragLookUpTolerance =
     Math_min maxFragLookUpTolerance
       (js_add (duration candidate)
          (if truthy_opt (deltaPTS candidate) then ToNumber (deltaPTS candidate) else Val 0))"

text \<open>
  A sequence ordered for the search under a tolerance: starts and ends (start plus
  duration) do not decrease, no start is negative, and the tolerance applied to a
  fragment does not grow along the sequence (it is the same for all when no fragment is
  shorter than the configured tolerance).
\<close>

definition ordered_for_search :: "number \<Rightarrow> fragment list \<Rightarrow> bool" where
  "ordered_for_search maxFragLookUpTolerance fragments =
     (sorted_wrt (\<lambda>a b. js_le (start a) (start b)) fragments
      \<and> sorted_wrt (\<lambda>a b. js_le (js_add (start a) (duration a))
                             (js_add (start b) (duration b))) fragments
      \<and> list_all (\<lambda>f. js_ge (start f) (Val 0)) fragments
      \<and> sorted_wrt (\<lambda>a b. js_ge (lookupTolerance a maxFragLookUpTolerance)
                             (lookupTolerance b maxFragLookUpTolerance)) fragments)"

section \<open>Example data\<close>

text \<open>A fragment without program date time, and one with it.\<close>

definition frag :: "real \<Rightarrow> real \<Rightarrow> real \<Rightarrow> fragment" where
  "frag n s d =
     \<lparr>sn = Val n, start = Val s, duration = Val d, pdt = None, endPdt = None, deltaPTS = None\<rparr>"

definition pdt_frag :: "real \<Rightarrow> real \<Rightarrow> real \<Rightarrow> fragment" where
  "pdt_frag n p e =
     \<lparr>sn = Val n, start = Val 0, duration = Val ((e - p) / 1000), pdt = Some (Val p),
      endPdt = Some (Val e), deltaPTS = None\<rparr>"

definition controller_with :: "fragment option \<Rightarrow> real \<Rightarrow> controller" where
  "controller_with fp tol =
     \<lparr>this_fragPrevious = fp,
      this_hls = \<lparr>hls_config = \<lparr>cfg_maxFragLookUpTolerance = Val tol\<rparr>\<rparr>\<rparr>"

text \<open>
  A stand-in for \<^verbatim>\<open>Date.parse\<close> that agrees with it on the strings used below: the
  epoch, and text that is no date, which parses to \<^verbatim>\<open>NaN\<close>.
\<close>

definition Date_parse_example :: "string \<Rightarrow> number" where
  "Date_parse_example s = (if s = ''1970-01-01T00:00:00.000Z'' then Val 0 else NaN)"

section \<open>The tolerance predicate: results\<close>

text \<open>
  The comparisons and the minimum of the language are those of the extended real line.
\<close>

lemma ieee_le_at_most: "ieee_le a b = at_most a b"
proof (cases a)
  case Not_a_Number then show ?thesis by (cases b) (simp_all add: ieee_le_def at_most_def)
next
  case (Number x)
  show ?thesis
  proof (cases b)
    case Not_a_Number then show ?thesis using Number by (simp add: ieee_le_def at_most_def)
  next
    case (Number y)
    then show ?thesis using \<open>a = Number x\<close>
      by (cases x; cases y) (auto simp: ieee_le_def at_most_def)
  qed
qed

lemma ieee_gt_greater_than: "ieee_gt a b = greater_than a b"
proof (cases a)
  case Not_a_Number then show ?thesis by (cases b) (simp_all add: ieee_gt_def greater_than_def)
next
  case (Number x)
  show ?thesis
  proof (cases b)
    case Not_a_Number then show ?thesis using Number by (simp add: ieee_gt_def greater_than_def)
  next
    case (Number y)
    then show ?thesis using \<open>a = Number x\<close>
      by (cases x; cases y) (auto simp: ieee_gt_def greater_than_def less_extended_def)
  qed
qed

lemma ieee_min_minimum: "ieee_min a b = minimum a b"
proof (cases a)
  case Not_a_Number then show ?thesis by (cases b) (simp_all add: ieee_min_def minimum_def)
next
  case (Number x)
  show ?thesis
  proof (cases b)
    case Not_a_Number then show ?thesis using Number by (simp add: ieee_min_def minimum_def)
  next
    case (Number y)
    then show ?thesis using \<open>a = Number x\<close>
      by (cases x; cases y) (auto simp: ieee_min_def minimum_def min_def)
  qed
qed

text \<open>The conditional on the drift, and the truthiness of the start under the comparison.\<close>

lemma deltaPTS_conditional:
  "(if ieee_truthy_opt (ieee_deltaPTS candidate)
    then ieee_ToNumber (ieee_deltaPTS candidate) else Number (Finite 0))
   = deltaPTS_or_0 candidate"
proof (cases "ieee_deltaPTS candidate")
  case None then show ?thesis by (simp add: deltaPTS_or_0_def)
next
  case (Some d)
  show ?thesis
  proof (cases d)
    case Not_a_Number then show ?thesis using Some by (simp add: deltaPTS_or_0_def)
  next
    case (Number x)
    then show ?thesis using Some by (cases x) (simp_all add: deltaPTS_or_0_def)
  qed
qed

lemma start_guard:
  "(greater_than (ieee_op sub s tol) b \<and> ieee_truthy s)
   = (greater_than (ieee_op sub s tol) b \<and> s \<noteq> Number (Finite 0))"
proof (cases s)
  case Not_a_Number then show ?thesis by (simp add: greater_than_def)
next
  case (Number x) then show ?thesis by (cases x) simp_all
qed

text \<open>
  C2. For every candidate, buffer end and tolerance, and for whatever the addition and
  the subtraction of doubles compute, \<open>fragmentWithinToleranceTest\<close> returns the code of
  the classification that the specification describes: After (1) when
  \<open>start + duration - tol \<le> bufferEnd\<close> for
  \<open>tol = min(maxLookupTolerance, duration + (deltaPTS or 0))\<close>, else Before (-1) when
  \<open>start - tol > bufferEnd\<close> and \<open>start \<noteq> 0\<close>, else Match (0).
\<close>

theorem fragmentWithinToleranceTest_ieee_classify:
  "fragmentWithinToleranceTest_ieee add sub candidate bufferEnd maxLookupTolerance
     = code_of (classify add sub candidate bufferEnd maxLookupTolerance)"
  unfolding fragmentWithinToleranceTest_ieee_def classify_def Let_def
    ieee_le_at_most ieee_gt_greater_than ieee_min_minimum deltaPTS_conditional start_guard
  by simp

text \<open>
  The exact predicate used in the rest of this theory is the predicate over doubles for
  an addition and a subtraction that are exact on finite values.
\<close>

lemma fragmentWithinToleranceTest_exact_instance:
  assumes add: "\<And>a b. add (Finite a) (Finite b) = Number (Finite (a + b))"
    and sub: "\<And>a b. sub (Finite a) (Finite b) = Number (Finite (a - b))"
  shows "fragmentWithinToleranceTest_ieee add sub (to_ieee_fragment c) (to_double b) (to_double m)
       = fragmentWithinToleranceTest c b m"
proof -
  have A: "ieee_op add (to_double x) (to_double y) = to_double (js_add x y)" for x y
    by (cases x; cases y) (simp_all add: add)
  have S: "ieee_op sub (to_double x) (to_double y) = to_double (js_sub x y)" for x y
    by (cases x; cases y) (simp_all add: sub)
  have M: "ieee_min (to_double x) (to_double y) = to_double (Math_min x y)" for x y
    by (cases x; cases y) (simp_all add: ieee_min_def min_def)
  have L: "ieee_le (to_double x) (to_double y) = js_le x y" for x y
    by (cases x; cases y) (auto simp: ieee_le_def)
  have G: "ieee_gt (to_double x) (to_double y) = js_gt x y" for x y
    by (cases x; cases y) (auto simp: ieee_gt_def)
  have T: "ieee_truthy (to_double x) = truthy x" for x
    by (cases x) simp_all
  have D: "(if ieee_truthy_opt (map_option to_double d) then ieee_ToNumber (map_option to_double d)
            else Number (Finite 0))
         = to_double (if truthy_opt d then ToNumber d else Val 0)" for d
    by (cases d) (simp_all add: T)
  have sel: "ieee_start (to_ieee_fragment c) = to_double (start c)"
    "ieee_duration (to_ieee_fragment c) = to_double (duration c)"
    "ieee_deltaPTS (to_ieee_fragment c) = map_option to_double (deltaPTS c)"
    by (simp_all add: to_ieee_fragment_def)
  show ?thesis
    unfolding fragmentWithinToleranceTest_ieee_def fragmentWithinToleranceTest_def
      Let_def sel D A M S L G T
    by (rule refl)
qed

text \<open>
  Where the addition of doubles rounds, the two differ: \<open>2^53 + 1\<close> is \<open>2^53\<close> in doubles,
  so a fragment of one second starting at \<open>2^53\<close> is After for a buffer end of \<open>2^53\<close>,
  and the exact predicate answers Match.
\<close>

lemma fragmentWithinToleranceTest_ieee_rounded_sum:
  assumes "add (Finite 9007199254740992) (Finite 1) = Number (Finite 9007199254740992)"
    and "add (Finite 1) (Finite 0) = Number (Finite 1)"
    and "sub (Finite 9007199254740992) (Finite 0) = Number (Finite 9007199254740992)"
  shows "fragmentWithinToleranceTest_ieee add sub
           \<lparr>ieee_start = Number (Finite 9007199254740992), ieee_duration = Number (Finite 1),
            ieee_deltaPTS = None\<rparr>
           (Number (Finite 9007199254740992)) (Number (Finite 0)) = 1
       \<and> fragmentWithinToleranceTest (frag 0 9007199254740992 1) (Val 9007199254740992) (Val 0)
           = 0"
  using assms
  by (simp add: fragmentWithinToleranceTest_ieee_def fragmentWithinToleranceTest_def frag_def
      ieee_min_def ieee_le_def)

text \<open>
  C8. A candidate whose start is zero is never classified Before, whatever the buffer end
  and the tolerance are (a negative one included): the result is After or Match.
\<close>

theorem zero_start_never_Before:
  "start candidate = Val 0 \<Longrightarrow>
     fragmentWithinToleranceTest candidate bufferEnd maxFragLookUpTolerance \<noteq> - 1
     \<and> (fragmentWithinToleranceTest candidate bufferEnd maxFragLookUpTolerance = 1
        \<or> fragmentWithinToleranceTest candidate bufferEnd maxFragLookUpTolerance = 0)"
  by (simp add: fragmentWithinToleranceTest_def Let_def)

theorem zero_start_never_Before_witness:
  "start (frag 0 0 10) = Val 0
   \<and> fragmentWithinToleranceTest (frag 0 0 10) (Val (- 5)) (Val (- 3)) \<noteq> - 1
   \<and> fragmentWithinToleranceTest (frag 0 0 10) (Val (- 5)) (Val (- 3)) = 0"
  using zero_start_never_Before [of "frag 0 0 10" "Val (- 5)" "Val (- 3)"]
  by (simp add: frag_def fragmentWithinToleranceTest_def)

text \<open>The zero-start guard holds over doubles as well, for every addition and subtraction.\<close>

lemma zero_start_never_Before_ieee:
  "ieee_start candidate = Number (Finite 0) \<Longrightarrow>
     fragmentWithinToleranceTest_ieee add sub candidate bufferEnd maxFragLookUpTolerance \<noteq> - 1"
  by (simp add: fragmentWithinToleranceTest_ieee_def Let_def)

section \<open>The PDT projector: results\<close>

text \<open>
  The second copy computes the next PDT from its \<open>fragPrevious\<close> argument whenever that
  fragment has a truthy \<open>pdt\<close>.
\<close>

lemma calculateNextPDT_from_argument:
  "truthy_opt (pdt fp) \<Longrightarrow>
     calculateNextPDT Date_parse start' bufferEnd (Some fp) levelDetails
       = Inr (js_add (ToNumber (pdt fp)) (js_mul (duration fp) (Val 1000)))"
  by (simp add: calculateNextPDT_def)

text \<open>
  C3, at a failing input. The argument is a fragment with \<open>pdt = 1000\<close> and a duration of
  two seconds, so the claim asks for \<open>3000\<close>. \<^verbatim>\<open>calculateNextPdt\<close> of
  \<^verbatim>\<open>fragment-finders.js\<close> throws when called without a receiver, and with a receiver it
  returns the value computed from the receiver's own \<open>fragPrevious\<close> (\<open>6000\<close> here); the
  second copy returns \<open>3000\<close>.
\<close>

theorem calculateNextPdt_reads_this:
  "calculateNextPdt Date_parse_example None (Val 0) (Val 0)
       (Some (pdt_frag 7 1000 3000)) (Some \<lparr>programDateTime = None\<rparr>)
     = Inl TypeError
   \<and> calculateNextPdt Date_parse_example
       (Some (controller_with (Some (pdt_frag 3 5000 6000)) 0.25)) (Val 0) (Val 0)
       (Some (pdt_frag 7 1000 3000)) (Some \<lparr>programDateTime = None\<rparr>)
     = Inr (Val 6000)
   \<and> calculateNextPDT Date_parse_example (Val 0) (Val 0)
       (Some (pdt_frag 7 1000 3000)) (Some \<lparr>programDateTime = None\<rparr>)
     = Inr (Val 3000)"
  by (simp add: calculateNextPdt_def calculateNextPDT_def pdt_frag_def controller_with_def)

text \<open>
  C5 as stated fails: with no previous fragment and a level anchor that does not parse,
  both copies return \<^verbatim>\<open>NaN\<close>, which is not the \<open>0\<close> returned for an absent anchor.
\<close>

theorem malformed_anchor_not_zero:
  "Date_parse_example ''not a date'' = NaN
   \<and> calculateNextPDT Date_parse_example (Val 0) (Val 8) None
        (Some \<lparr>programDateTime = Some ''not a date''\<rparr>) = Inr NaN
   \<and> calculateNextPdt Date_parse_example None (Val 0) (Val 8) None
        (Some \<lparr>programDateTime = Some ''not a date''\<rparr>) = Inr NaN
   \<and> calculateNextPDT Date_parse_example (Val 0) (Val 8) None
        (Some \<lparr>programDateTime = None\<rparr>) = Inr (Val 0)
   \<and> (Inr NaN :: error + number) \<noteq> Inr (Val 0)"
  by (simp add: calculateNextPdt_def calculateNextPDT_def Date_parse_example_def)

text \<open>
  C5, amended. When \<open>fragPrevious\<close> is absent or its \<open>pdt\<close> is falsy, and
  \<open>programDateTime\<close> is a non-empty string that the parser maps to \<^verbatim>\<open>NaN\<close>, both copies
  return \<^verbatim>\<open>NaN\<close>. That value is falsy, as \<open>0\<close> is, and the PDT locator answers none to
  it for every fragment sequence.
\<close>

theorem malformed_anchor_gives_NaN:
  assumes "Date_parse s = NaN" and "s \<noteq> []"
    and "programDateTime ld = Some s"
    and "fragPrevious = None \<or> (\<exists>fp. fragPrevious = Some fp \<and> \<not> truthy_opt (pdt fp))"
  shows "calculateNextPDT Date_parse start' bufferEnd fragPrevious (Some ld) = Inr NaN
   \<and> calculateNextPdt Date_parse this start' bufferEnd fragPrevious (Some ld) = Inr NaN
   \<and> \<not> truthy NaN
   \<and> findFragmentByPDT fragments (Some NaN) = Inr None"
proof -
  have guard: "(case fragPrevious of None \<Rightarrow> None
                | Some fp \<Rightarrow> if truthy_opt (pdt fp) then Some fp else None) = None"
    using assms(4) by auto
  have arith: "js_sub (js_add (js_mul bufferEnd (Val 1000)) NaN) (js_mul (Val 1000) start') = NaN"
    by (cases "js_mul bufferEnd (Val 1000)") simp_all
  have a: "calculateNextPDT Date_parse start' bufferEnd fragPrevious (Some ld) = Inr NaN"
    unfolding calculateNextPDT_def guard using assms(1-3) arith by simp
  have b: "calculateNextPdt Date_parse this start' bufferEnd fragPrevious (Some ld) = Inr NaN"
    unfolding calculateNextPdt_def guard using assms(1-3) arith by simp
  have c: "findFragmentByPDT fragments (Some NaN) = Inr None"
    by (cases fragments) (simp_all add: findFragmentByPDT_def)
  from a b c show ?thesis by simp
qed

theorem malformed_anchor_gives_NaN_witness:
  "Date_parse_example ''not a date'' = NaN
   \<and> calculateNextPDT Date_parse_example (Val 0) (Val 8) (Some (frag 4 40 10))
        (Some \<lparr>programDateTime = Some ''not a date''\<rparr>) = Inr NaN
   \<and> findFragmentByPDT (Some [pdt_frag 0 1000 3000]) (Some NaN) = Inr None"
  using malformed_anchor_gives_NaN [of Date_parse_example "''not a date''"
      "\<lparr>programDateTime = Some ''not a date''\<rparr>" "Some (frag 4 40 10)" "Val 0" "Val 8"
      None "Some [pdt_frag 0 1000 3000]"]
  by (simp add: Date_parse_example_def frag_def)

section \<open>The PDT locator: results\<close>

text \<open>An absent sequence, and a falsy target with any sequence, give none.\<close>

lemma findFragmentByPDT_absent: "findFragmentByPDT None PDTValue = Inr None"
  by (simp add: findFragmentByPDT_def)

lemma findFragmentByPDT_no_target:
  "\<not> truthy_opt PDTValue \<Longrightarrow> findFragmentByPDT fragments PDTValue = Inr None"
  by (cases fragments) (simp_all add: findFragmentByPDT_def)

text \<open>
  C6, at a failing input: an empty array with a target of \<open>1000\<close>. The array is truthy, the
  first test lets it through, and reading \<^verbatim>\<open>pdt\<close> of its missing first element throws.
\<close>

theorem findFragmentByPDT_empty_array_throws:
  "findFragmentByPDT (Some []) (Some (Val 1000)) = Inl TypeError"
  by (simp add: findFragmentByPDT_def)

text \<open>Facts about the comparisons of numbers.\<close>

lemma js_ge_not_lt: "js_ge a b \<Longrightarrow> \<not> js_lt a b"
  by (cases a; cases b) simp_all

lemma js_lt_not_ge: "js_lt a b \<Longrightarrow> \<not> js_ge a b"
  by (cases a; cases b) simp_all

lemma js_lt_trans: "js_lt a b \<Longrightarrow> js_lt b c \<Longrightarrow> js_lt a c"
  by (cases a; cases b; cases c) simp_all

lemma js_le_lt_trans: "js_le a b \<Longrightarrow> js_lt b c \<Longrightarrow> js_le a c"
  by (cases a; cases b; cases c) simp_all

lemma js_lt_asym: "js_lt a b \<Longrightarrow> \<not> js_lt b a"
  by (cases a; cases b) simp_all

lemma js_le_ge: "js_le a b \<Longrightarrow> js_ge b a"
  by (cases a; cases b) simp_all

text \<open>The loop returns the first fragment whose end exceeds the target.\<close>

lemma scanByPDT_find:
  "scanByPDT fragments v = find (\<lambda>f. js_lt v (ToNumber (endPdt f))) fragments"
  by (induction fragments) simp_all

lemma findFragmentByPDT_unfold:
  assumes "fragments \<noteq> []" and "p \<noteq> 0"
  shows "findFragmentByPDT (Some fragments) (Some (Val p)) =
     Inr (if js_lt (Val p) (ToNumber (pdt (hd fragments)))
             \<or> js_ge (Val p) (ToNumber (endPdt (last fragments)))
          then None
          else find (\<lambda>f. js_lt (Val p) (ToNumber (endPdt f))) fragments)"
  using assms
  by (cases fragments) (simp_all add: findFragmentByPDT_def scanByPDT_find Let_def)

lemma findFragmentByPDT_inside:
  assumes ne: "fragments \<noteq> []" and nz: "p \<noteq> 0"
    and lo: "js_ge (Val p) (ToNumber (pdt (hd fragments)))"
    and hi: "js_lt (Val p) (ToNumber (endPdt (last fragments)))"
  shows "\<exists>i<length fragments.
           findFragmentByPDT (Some fragments) (Some (Val p)) = Inr (Some (fragments ! i))
           \<and> js_lt (Val p) (ToNumber (endPdt (fragments ! i)))
           \<and> (\<forall>j<i. \<not> js_lt (Val p) (ToNumber (endPdt (fragments ! j))))"
proof -
  let ?P = "\<lambda>f. js_lt (Val p) (ToNumber (endPdt f))"
  have "last fragments \<in> set fragments" using ne by simp
  with hi have "\<exists>f\<in>set fragments. ?P f" by blast
  then obtain x where x: "find ?P fragments = Some x"
    by (cases "find ?P fragments") (auto simp: find_None_iff)
  then obtain i where i: "i < length fragments" "?P (fragments ! i)" "x = fragments ! i"
      "\<forall>j<i. \<not> ?P (fragments ! j)"
    unfolding find_Some_iff by blast
  have "findFragmentByPDT (Some fragments) (Some (Val p)) = Inr (Some x)"
    using findFragmentByPDT_unfold [OF ne nz] js_ge_not_lt [OF lo] js_lt_not_ge [OF hi] x
    by simp
  with i show ?thesis by blast
qed

lemma findFragmentByPDT_boundary:
  assumes ne: "fragments \<noteq> []" and nz: "p \<noteq> 0"
    and mono: "pdt_monotone fragments"
    and i: "Suc i < length fragments" and eq: "endPdt (fragments ! i) = Some (Val p)"
  shows "findFragmentByPDT (Some fragments) (Some (Val p)) = Inr (Some (fragments ! Suc i))"
proof -
  let ?e = "\<lambda>k. ToNumber (endPdt (fragments ! k))"
  let ?P = "\<lambda>f. js_lt (Val p) (ToNumber (endPdt f))"
  have inc: "\<And>a b. a < b \<Longrightarrow> b < length fragments \<Longrightarrow> js_lt (?e a) (?e b)"
    using mono unfolding pdt_monotone_def by (simp add: sorted_wrt_iff_nth_less)
  have ei: "?e i = Val p" using eq by simp
  have nxt: "?P (fragments ! Suc i)" using inc [of i "Suc i"] i ei by simp
  have before: "\<not> ?P (fragments ! j)" if "j < Suc i" for j
  proof (cases "j = i")
    case True then show ?thesis using ei by simp
  next
    case False
    with that have "j < i" by simp
    then have "js_lt (?e j) (Val p)" using inc [of j i] i ei by simp
    then show ?thesis by (rule js_lt_asym)
  qed
  have found: "find ?P fragments = Some (fragments ! Suc i)"
    unfolding find_Some_iff using i nxt before by blast
  have first: "js_le (ToNumber (pdt (hd fragments))) (?e 0)"
    using mono ne unfolding pdt_monotone_def by (cases fragments) simp_all
  have "js_le (ToNumber (pdt (hd fragments))) (Val p)"
  proof (cases "i = 0")
    case True then show ?thesis using first ei by simp
  next
    case False
    then have "js_lt (?e 0) (Val p)" using inc [of 0 i] i ei by simp
    with first show ?thesis by (rule js_le_lt_trans)
  qed
  then have lo: "\<not> js_lt (Val p) (ToNumber (pdt (hd fragments)))"
    by (intro js_ge_not_lt js_le_ge)
  have lastidx: "last fragments = fragments ! (length fragments - 1)"
    using ne by (simp add: last_conv_nth)
  have "js_lt (Val p) (ToNumber (endPdt (last fragments)))"
  proof (cases "Suc i = length fragments - 1")
    case True then show ?thesis using nxt lastidx by simp
  next
    case False
    then have "js_lt (?e (Suc i)) (?e (length fragments - 1))"
      using inc [of "Suc i" "length fragments - 1"] i by simp
    with nxt show ?thesis unfolding lastidx by (metis js_lt_trans)
  qed
  then have hi: "\<not> js_ge (Val p) (ToNumber (endPdt (last fragments)))"
    by (rule js_lt_not_ge)
  show ?thesis using findFragmentByPDT_unfold [OF ne nz] lo hi found by simp
qed

text \<open>
  C1 as stated fails at the target \<open>0\<close>: for one fragment from \<open>-1000\<close> to \<open>1000\<close> the
  target is in range and the fragment's end exceeds it, yet the locator returns none,
  because a zero target is taken as no target.
\<close>

theorem findFragmentByPDT_zero_target_in_range:
  "js_ge (Val 0) (ToNumber (pdt (pdt_frag 0 (- 1000) 1000)))
   \<and> js_lt (Val 0) (ToNumber (endPdt (pdt_frag 0 (- 1000) 1000)))
   \<and> pdt_monotone [pdt_frag 0 (- 1000) 1000]
   \<and> findFragmentByPDT (Some [pdt_frag 0 (- 1000) 1000]) (Some (Val 0)) = Inr None"
  by (simp add: findFragmentByPDT_def pdt_frag_def pdt_monotone_def)

text \<open>
  When two neighbours end at the same time, a target equal to that end gives the fragment
  after both, so the step to the next index needs ends that increase strictly.
\<close>

lemma findFragmentByPDT_equal_ends:
  "findFragmentByPDT
     (Some [pdt_frag 0 1000 2000, pdt_frag 1 2000 2000, pdt_frag 2 2000 3000])
     (Some (Val 2000)) = Inr (Some (pdt_frag 2 2000 3000))"
  by (simp add: findFragmentByPDT_def pdt_frag_def)

text \<open>
  C1, amended. For a non-empty sequence and a non-zero target: the locator returns none
  when the target is below the first fragment's \<open>pdt\<close> or at or above the last fragment's
  \<open>endPdt\<close>; for a target in range it returns the fragment of lowest index whose \<open>endPdt\<close>
  exceeds the target; and when the program date times are monotone, the ends strictly, a
  target equal to the \<open>endPdt\<close> of fragment \<open>i\<close> gives fragment \<open>i + 1\<close>.
\<close>

theorem findFragmentByPDT_first_exceeding:
  assumes ne: "fragments \<noteq> []" and nz: "p \<noteq> 0"
  shows "(js_lt (Val p) (ToNumber (pdt (hd fragments)))
            \<or> js_ge (Val p) (ToNumber (endPdt (last fragments)))
          \<longrightarrow> findFragmentByPDT (Some fragments) (Some (Val p)) = Inr None)
       \<and> (js_ge (Val p) (ToNumber (pdt (hd fragments)))
            \<and> js_lt (Val p) (ToNumber (endPdt (last fragments)))
          \<longrightarrow> (\<exists>i<length fragments.
                 findFragmentByPDT (Some fragments) (Some (Val p)) = Inr (Some (fragments ! i))
                 \<and> js_lt (Val p) (ToNumber (endPdt (fragments ! i)))
                 \<and> (\<forall>j<i. \<not> js_lt (Val p) (ToNumber (endPdt (fragments ! j))))))
       \<and> (pdt_monotone fragments
          \<longrightarrow> (\<forall>i. Suc i < length fragments \<and> endPdt (fragments ! i) = Some (Val p)
                 \<longrightarrow> findFragmentByPDT (Some fragments) (Some (Val p))
                       = Inr (Some (fragments ! Suc i))))"
proof (intro conjI impI allI)
  assume "js_lt (Val p) (ToNumber (pdt (hd fragments)))
            \<or> js_ge (Val p) (ToNumber (endPdt (last fragments)))"
  then show "findFragmentByPDT (Some fragments) (Some (Val p)) = Inr None"
    using findFragmentByPDT_unfold [OF ne nz] by simp
next
  assume "js_ge (Val p) (ToNumber (pdt (hd fragments)))
            \<and> js_lt (Val p) (ToNumber (endPdt (last fragments)))"
  then show "\<exists>i<length fragments.
                 findFragmentByPDT (Some fragments) (Some (Val p)) = Inr (Some (fragments ! i))
                 \<and> js_lt (Val p) (ToNumber (endPdt (fragments ! i)))
                 \<and> (\<forall>j<i. \<not> js_lt (Val p) (ToNumber (endPdt (fragments ! j))))"
    using findFragmentByPDT_inside [OF ne nz] by blast
next
  fix i
  assume "pdt_monotone fragments"
    and "Suc i < length fragments \<and> endPdt (fragments ! i) = Some (Val p)"
  then show "findFragmentByPDT (Some fragments) (Some (Val p)) = Inr (Some (fragments ! Suc i))"
    using findFragmentByPDT_boundary [OF ne nz] by blast
qed

theorem findFragmentByPDT_first_exceeding_witness:
  "[pdt_frag 0 1000 2000, pdt_frag 1 2000 3000, pdt_frag 2 3000 4000] \<noteq> []
   \<and> (2000 :: real) \<noteq> 0
   \<and> pdt_monotone [pdt_frag 0 1000 2000, pdt_frag 1 2000 3000, pdt_frag 2 3000 4000]
   \<and> findFragmentByPDT
        (Some [pdt_frag 0 1000 2000, pdt_frag 1 2000 3000, pdt_frag 2 3000 4000])
        (Some (Val 2000)) = Inr (Some (pdt_frag 1 2000 3000))
   \<and> findFragmentByPDT
        (Some [pdt_frag 0 1000 2000, pdt_frag 1 2000 3000, pdt_frag 2 3000 4000])
        (Some (Val 4000)) = Inr None"
proof -
  let ?fs = "[pdt_frag 0 1000 2000, pdt_frag 1 2000 3000, pdt_frag 2 3000 4000]"
  have ne: "?fs \<noteq> []" by simp
  have nz: "(2000 :: real) \<noteq> 0" and nz': "(4000 :: real) \<noteq> 0" by simp_all
  have mono: "pdt_monotone ?fs"
    by (simp add: pdt_monotone_def pdt_frag_def)
  have idx: "Suc 0 < length ?fs \<and> endPdt (?fs ! 0) = Some (Val 2000)"
    by (simp add: pdt_frag_def)
  from findFragmentByPDT_first_exceeding [OF ne nz] mono idx
  have "findFragmentByPDT (Some ?fs) (Some (Val 2000)) = Inr (Some (?fs ! Suc 0))"
    by blast
  then have a: "findFragmentByPDT (Some ?fs) (Some (Val 2000)) = Inr (Some (pdt_frag 1 2000 3000))"
    by simp
  have out: "js_ge (Val 4000) (ToNumber (endPdt (last ?fs)))"
    by (simp add: pdt_frag_def)
  from findFragmentByPDT_first_exceeding [OF ne nz'] out
  have b: "findFragmentByPDT (Some ?fs) (Some (Val 4000)) = Inr None"
    by blast
  from ne nz mono a b show ?thesis by blast
qed

section \<open>The SN locator: results\<close>

text \<open>
  C4 as stated fails. After a seek back to \<open>5\<close> with the fragment from \<open>10\<close> to \<open>20\<close>
  appended last, the sequential candidate starts at \<open>20\<close> and is classified Before
  (\<open>-1\<close>), which is not the After code; it is not returned. Both copies hand the
  sequence to the search, which answers with another fragment.
\<close>

theorem findFragmentBySN_Before_candidate_searched:
  "js_lt (Val 5) (Val 30)
   \<and> fragNext_of (Some (frag 1 10 10)) [frag 0 0 10, frag 1 10 10, frag 2 20 10]
        = Inr (Some (frag 2 20 10))
   \<and> fragmentWithinToleranceTest (frag 2 20 10) (Val 5)
        (near_end_tolerance (Val 5) (Val 30) (Val 0.25)) = - 1
   \<and> findFragmentBySN BinarySearch_search (Some (frag 1 10 10))
        [frag 0 0 10, frag 1 10 10, frag 2 20 10] (Val 5) (Val 30) (Val 0.25)
        = Inr (Some (frag 1 10 10))
   \<and> findFragmentBySN_this BinarySearch_search (Some (controller_with None 0.25))
        (Some (frag 1 10 10)) [frag 0 0 10, frag 1 10 10, frag 2 20 10] (Val 5) (Val 30)
        = Inr (Some (frag 0 0 10))
   \<and> frag 1 10 10 \<noteq> frag 2 20 10 \<and> frag 0 0 10 \<noteq> frag 2 20 10"
  by (simp add: fragNext_of_def frag_def fragmentWithinToleranceTest_def near_end_tolerance_def
       findFragmentBySN_def findFragmentBySN_this_def BinarySearch_search_def
       controller_with_def Let_def)

text \<open>
  C4, amended. Whenever \<open>bufferEnd < end\<close> and the sequential candidate exists, it is
  returned directly, whatever the search is, exactly when the tolerance predicate
  classifies it Match (\<open>0\<close>) under the tolerance left by the near-end zeroing; when the
  predicate answers After or Before, the result is that of the ordered search over the
  whole sequence.
\<close>

theorem findFragmentBySN_prefers_match:
  assumes "js_lt bufferEnd end'"
    and "fragNext_of fragPrevious fragments = Inr (Some fragNext)"
  shows "findFragmentBySN search fragPrevious fragments bufferEnd end' maxTol =
           (if fragmentWithinToleranceTest fragNext bufferEnd
                 (near_end_tolerance bufferEnd end' maxTol) = 0
            then Inr (Some fragNext)
            else Inr (search fragments
                   (\<lambda>candidate. fragmentWithinToleranceTest candidate NaN NaN)))
       \<and> findFragmentBySN_this search (Some ctl) fragPrevious fragments bufferEnd end' =
           (if fragmentWithinToleranceTest fragNext bufferEnd
                 (near_end_tolerance bufferEnd end'
                    (cfg_maxFragLookUpTolerance (hls_config (this_hls ctl)))) = 0
            then Inr (Some fragNext)
            else Inr (search fragments
                   (\<lambda>candidate. fragmentWithinToleranceTest candidate bufferEnd
                      (near_end_tolerance bufferEnd end'
                         (cfg_maxFragLookUpTolerance (hls_config (this_hls ctl)))))))"
  using assms by (simp add: findFragmentBySN_def findFragmentBySN_this_def Let_def)

theorem findFragmentBySN_prefers_match_witness:
  "js_lt (Val 9.75) (Val 20)
   \<and> fragNext_of (Some (frag 0 0 10)) [frag 0 0 10, frag 1 10 10] = Inr (Some (frag 1 10 10))
   \<and> findFragmentBySN BinarySearch_search (Some (frag 0 0 10)) [frag 0 0 10, frag 1 10 10]
        (Val 9.75) (Val 20) (Val 0.25) = Inr (Some (frag 1 10 10))"
proof -
  have lt: "js_lt (Val 9.75) (Val 20)" by simp
  have nxt: "fragNext_of (Some (frag 0 0 10)) [frag 0 0 10, frag 1 10 10]
               = Inr (Some (frag 1 10 10))"
    by (simp add: fragNext_of_def frag_def)
  have m: "fragmentWithinToleranceTest (frag 1 10 10) (Val 9.75)
             (near_end_tolerance (Val 9.75) (Val 20) (Val 0.25)) = 0"
    by (simp add: fragmentWithinToleranceTest_def near_end_tolerance_def frag_def)
  from findFragmentBySN_prefers_match [OF lt nxt, of BinarySearch_search "Val 0.25"] m
  have "findFragmentBySN BinarySearch_search (Some (frag 0 0 10)) [frag 0 0 10, frag 1 10 10]
          (Val 9.75) (Val 20) (Val 0.25) = Inr (Some (frag 1 10 10))"
    by simp
  with lt nxt show ?thesis by blast
qed









section \<open>Order of the classifications along a sequence\<close>

lemma test_via_lookupTolerance:
  "fragmentWithinToleranceTest c b m =
     (if js_le (js_sub (js_add (start c) (duration c)) (lookupTolerance c m)) b then 1
      else if js_gt (js_sub (start c) (lookupTolerance c m)) b \<and> truthy (start c) then - 1
      else 0)"
  by (simp add: fragmentWithinToleranceTest_def lookupTolerance_def Let_def)

lemma pair_monotone:
  assumes "js_le (start a) (start b)"
    and "js_le (js_add (start a) (duration a)) (js_add (start b) (duration b))"
    and "js_ge (start a) (Val 0)"
    and "js_ge (lookupTolerance a m) (lookupTolerance b m)"
  shows "fragmentWithinToleranceTest b B m \<le> fragmentWithinToleranceTest a B m"
proof -
  obtain sa sb where s: "start a = Val sa" "start b = Val sb" "sa \<le> sb" "0 \<le> sa"
    using assms(1,3) by (cases "start a"; cases "start b") simp_all
  obtain da db where d: "duration a = Val da" "duration b = Val db" "sa + da \<le> sb + db"
    using assms(2) s by (cases "duration a"; cases "duration b") simp_all
  obtain ta tb where t: "lookupTolerance a m = Val ta" "lookupTolerance b m = Val tb" "tb \<le> ta"
    using assms(4) by (cases "lookupTolerance a m"; cases "lookupTolerance b m") simp_all
  show ?thesis
  proof (cases B)
    case NaN
    then show ?thesis by (simp add: test_via_lookupTolerance s d t)
  next
    case (Val x)
    then show ?thesis using s d t by (simp add: test_via_lookupTolerance)
  qed
qed

text \<open>
  C7 as stated fails. With a configured tolerance of \<open>0.5\<close> and a buffer end of \<open>99.75\<close>,
  a fragment of \<open>0.125\<close> seconds starting at \<open>100\<close> is classified Before, and the
  ten-second fragment that follows it at \<open>100.125\<close> is classified Match: the short
  fragment's tolerance is capped at its duration, the long one's is not. The starts do not
  decrease and the sequence numbers increase.
\<close>

theorem classification_not_monotone:
  "js_le (start (frag 0 100 0.125)) (start (frag 1 100.125 10))
   \<and> sn_increasing [frag 0 100 0.125, frag 1 100.125 10]
   \<and> fragmentWithinToleranceTest (frag 0 100 0.125) (Val 99.75) (Val 0.5) = - 1
   \<and> fragmentWithinToleranceTest (frag 1 100.125 10) (Val 99.75) (Val 0.5) = 0"
  by (simp add: frag_def fragmentWithinToleranceTest_def sn_increasing_def)

text \<open>
  Two more sequences with non-decreasing starts: overlapping fragments give Match before
  After, and a zero start after a negative one gives Before before Match.
\<close>

lemma classification_overlapping_fragments:
  "js_le (start (frag 0 0 100)) (start (frag 1 1 1))
   \<and> fragmentWithinToleranceTest (frag 0 0 100) (Val 50) (Val 0) = 0
   \<and> fragmentWithinToleranceTest (frag 1 1 1) (Val 50) (Val 0) = 1"
  by (simp add: frag_def fragmentWithinToleranceTest_def)

lemma classification_zero_start_after_negative:
  "js_le (start (frag 0 (- 1) 1)) (start (frag 1 0 1))
   \<and> fragmentWithinToleranceTest (frag 0 (- 1) 1) (Val (- 5)) (Val 0) = - 1
   \<and> fragmentWithinToleranceTest (frag 1 0 1) (Val (- 5)) (Val 0) = 0"
  by (simp add: frag_def fragmentWithinToleranceTest_def)

text \<open>
  C7, amended. For every buffer end and tolerance, and every sequence ordered for the
  search (starts and ends non-decreasing, no negative start, the applied tolerance not
  growing along the sequence), the code returned for a later fragment is at most the one
  returned for an earlier fragment: all After entries (\<open>1\<close>) precede all Match entries
  (\<open>0\<close>), which precede all Before entries (\<open>-1\<close>).
\<close>

theorem classification_monotone:
  assumes ord: "ordered_for_search maxTol fragments" and ij: "i < j" "j < length fragments"
  shows "fragmentWithinToleranceTest (fragments ! j) bufferEnd maxTol
       \<le> fragmentWithinToleranceTest (fragments ! i) bufferEnd maxTol"
proof (rule pair_monotone)
  show "js_le (start (fragments ! i)) (start (fragments ! j))"
    using ord ij by (simp add: ordered_for_search_def sorted_wrt_iff_nth_less)
  show "js_le (js_add (start (fragments ! i)) (duration (fragments ! i)))
          (js_add (start (fragments ! j)) (duration (fragments ! j)))"
    using ord ij by (simp add: ordered_for_search_def sorted_wrt_iff_nth_less)
  show "js_ge (start (fragments ! i)) (Val 0)"
    using ord ij by (simp add: ordered_for_search_def list_all_length)
  show "js_ge (lookupTolerance (fragments ! i) maxTol) (lookupTolerance (fragments ! j) maxTol)"
    using ord ij by (simp add: ordered_for_search_def sorted_wrt_iff_nth_less)
qed

theorem classification_monotone_witness:
  "ordered_for_search (Val 0.25) [frag 0 0 10, frag 1 10 10, frag 2 20 10]
   \<and> (0 :: nat) < 2 \<and> 2 < length [frag 0 0 10, frag 1 10 10, frag 2 20 10]
   \<and> fragmentWithinToleranceTest ([frag 0 0 10, frag 1 10 10, frag 2 20 10] ! 2)
        (Val 15) (Val 0.25)
     \<le> fragmentWithinToleranceTest ([frag 0 0 10, frag 1 10 10, frag 2 20 10] ! 0)
        (Val 15) (Val 0.25)
   \<and> map (\<lambda>f. fragmentWithinToleranceTest f (Val 15) (Val 0.25))
        [frag 0 0 10, frag 1 10 10, frag 2 20 10] = [1, 0, - 1]"
proof -
  let ?fs = "[frag 0 0 10, frag 1 10 10, frag 2 20 10]"
  have ord: "ordered_for_search (Val 0.25) ?fs"
    by (simp add: ordered_for_search_def frag_def lookupTolerance_def)
  have i: "(0 :: nat) < 2" and j: "2 < length ?fs" by simp_all
  have codes: "map (\<lambda>f. fragmentWithinToleranceTest f (Val 15) (Val 0.25)) ?fs = [1, 0, - 1]"
    by (simp add: fragmentWithinToleranceTest_def frag_def)
  from ord i j classification_monotone [OF ord i j, of "Val 15"] codes
  show ?thesis by blast
qed

end
